theory Spec2Isabelle
  imports Complex_Main
begin

section \<open>Data model\<close>

text \<open>
  The trigram engine of the text scorer (\<^verbatim>\<open>src/trigram/TrigramMatrix.ts\<close>) and the types
  it takes from \<^verbatim>\<open>src/index.ts\<close>.  A JavaScript \<^verbatim>\<open>number\<close> that holds a count is an
  \<^typ>\<open>int\<close>; one that holds a score is a \<^typ>\<open>real\<close> (rounding of the floating-point
  quotient is not modelled).  A string is a list of its code units, each a
  \<^typ>\<open>char\<close>, so the texts covered are those with code units below 256.
\<close>

text \<open>A cutoff is the outcome of a division that JavaScript also carries out for \<open>0 / 0\<close>:
  it is a number or \<^verbatim>\<open>NaN\<close>.\<close>

datatype number = NaN | Number real

record CutoffScore =
  strict :: number
  avg :: number
  loose :: number

datatype CutoffScoreStrictness = Strict | Avg | Loose

record TrigramMatrixLayer =
  countLayer :: "int list list"
  layerTotal :: int

record TrigramMatrix =
  alphaSize :: nat
  charsToInclude :: string
  trigramMatrix :: "TrigramMatrixLayer list"
  cutoffScores :: CutoffScore
  charCodeMap :: "nat \<rightharpoonup> nat"
  savedGoodSamples :: "string list"
  savedBadSamples :: "string list"
  ignoreCase :: bool

text \<open>
  What \<^verbatim>\<open>TrigramMatrix.ts\<close> imports from modules whose source is not at hand and whose
  content the specification leaves open: the two hard-coded default sample arrays of
  \<^verbatim>\<open>utils/constants\<close>, the fraction by which the calibrator moves the strict and the
  loose cutoff away from the central one, and the word tokenizer of \<^verbatim>\<open>utils/helpers\<close>
  (an external collaborator).  They are parameters of the model.  The fraction is a
  fraction: above 0 (the calibrated cutoffs of the README and of the specification's
  scenario differ from one another) and at most 1.
\<close>

typedef fraction = "{x::real. 0 < x \<and> x \<le> 1}"
  by (rule exI [of _ 1]) simp

record Externals =
  DEFAULT_GOOD_SAMPLES :: "string list"
  DEFAULT_BAD_SAMPLES :: "string list"
  CUTOFF_FRACTION :: fraction
  cleanAndExtractWordsFromTextToScore :: "string \<Rightarrow> bool \<Rightarrow> string list"


section \<open>The helpers of trigramHelpers\<close>

text \<open>\<^verbatim>\<open>String.prototype.toLowerCase\<close> on code units below 256: the letters A to Z and
  the upper-case letters of Latin-1 move up by 32, every other unit stays.\<close>

definition toLowerCase_char :: "char \<Rightarrow> char" where
  "toLowerCase_char c =
     (let n = (of_char c :: nat)
      in if (65 \<le> n \<and> n \<le> 90) \<or> (192 \<le> n \<and> n \<le> 214) \<or> (216 \<le> n \<and> n \<le> 222)
         then char_of (n + 32) else c)"

definition toLowerCase :: "string \<Rightarrow> string" where
  "toLowerCase s = map toLowerCase_char s"

text \<open>Modelled from the spec: \<^verbatim>\<open>createEmptyTrigramMatrix\<close> of
  \<^verbatim>\<open>trigram/trigramHelpers\<close>, whose source is missing.  Section 4.2: one layer per
  first character, each an \<open>alphaSize \<times> alphaSize\<close> table of zero counts with total zero.\<close>

definition createEmptyTrigramMatrix :: "nat \<Rightarrow> TrigramMatrixLayer list" where
  "createEmptyTrigramMatrix k =
     replicate k \<lparr>countLayer = replicate k (replicate k 0), layerTotal = 0\<rparr>"

text \<open>The three characters of a window, looked up in the index map by their char code;
  \<open>None\<close> as soon as one of them has no index.\<close>

definition windowIndices :: "(nat \<rightharpoonup> nat) \<Rightarrow> char \<Rightarrow> char \<Rightarrow> char \<Rightarrow> (nat \<times> nat \<times> nat) option" where
  "windowIndices cm c1 c2 c3 =
     (case cm (of_char c1) of
        None \<Rightarrow> None
      | Some i1 \<Rightarrow>
          (case cm (of_char c2) of
             None \<Rightarrow> None
           | Some i2 \<Rightarrow>
               (case cm (of_char c3) of
                  None \<Rightarrow> None
                | Some i3 \<Rightarrow> Some (i1, i2, i3))))"

text \<open>One observed trigram: cell \<open>(i2, i3)\<close> of layer \<open>i1\<close> and that layer's total go up
  by one.  The indices come from the index map, which the data model keeps below the
  alphabet size.  What is proved below about a cell is stated for a cell inside the table,
  and what is proved about the table as a whole assumes that bound on the index map.\<close>

definition incrementCell :: "TrigramMatrixLayer list \<Rightarrow> nat \<Rightarrow> nat \<Rightarrow> nat \<Rightarrow> TrigramMatrixLayer list" where
  "incrementCell M i1 i2 i3 =
     M[i1 := \<lparr>countLayer =
                 (countLayer (M ! i1))[i2 := (countLayer (M ! i1) ! i2)[i3 := countLayer (M ! i1) ! i2 ! i3 + 1]],
               layerTotal = layerTotal (M ! i1) + 1\<rparr>]"

text \<open>Modelled from the spec: \<^verbatim>\<open>trainTrigramMatrix\<close> of \<^verbatim>\<open>trigram/trigramHelpers\<close>,
  whose source is missing.  Section 4.3: the text is folded to lower case when
  \<open>ignoreCase\<close> is set; a window slides over consecutive characters; a window whose three
  characters all have an index is counted, any other window is passed over.  The
  alphabet string is part of the call and plays no part in the counting the
  specification describes.\<close>

fun trainLoop :: "TrigramMatrixLayer list \<Rightarrow> (nat \<rightharpoonup> nat) \<Rightarrow> string \<Rightarrow> TrigramMatrixLayer list" where
  "trainLoop M cm (c1 # c2 # c3 # cs) =
     trainLoop
       (case windowIndices cm c1 c2 c3 of
          None \<Rightarrow> M
        | Some (i1, i2, i3) \<Rightarrow> incrementCell M i1 i2 i3)
       cm (c2 # c3 # cs)"
| "trainLoop M cm cs = M"

definition trainTrigramMatrix ::
  "TrigramMatrixLayer list \<Rightarrow> string \<Rightarrow> (nat \<rightharpoonup> nat) \<Rightarrow> string \<Rightarrow> bool \<Rightarrow> TrigramMatrixLayer list" where
  "trainTrigramMatrix M trainingText cm alphabet ic =
     trainLoop M cm (if ic then toLowerCase trainingText else trainingText)"

text \<open>The probability a window contributes: its count over the total of its layer, and
  zero when the layer has seen nothing.\<close>

definition transitionProbability :: "TrigramMatrixLayer list \<Rightarrow> nat \<Rightarrow> nat \<Rightarrow> nat \<Rightarrow> real" where
  "transitionProbability M i1 i2 i3 =
     (if layerTotal (M ! i1) = 0 then 0
      else real_of_int (countLayer (M ! i1) ! i2 ! i3) / real_of_int (layerTotal (M ! i1)))"

text \<open>Modelled from the spec: \<^verbatim>\<open>runTextThroughTrigramMatrix\<close> of
  \<^verbatim>\<open>trigram/trigramHelpers\<close>, whose source is missing.  Section 4.4: the same window as
  the trainer; the loop carries the sum of the probabilities met and the number of
  windows counted; the score is their quotient, and zero when no window was counted.\<close>

fun scoreLoop :: "TrigramMatrixLayer list \<Rightarrow> (nat \<rightharpoonup> nat) \<Rightarrow> string \<Rightarrow> real \<times> nat \<Rightarrow> real \<times> nat" where
  "scoreLoop M cm (c1 # c2 # c3 # cs) (acc, n) =
     scoreLoop M cm (c2 # c3 # cs)
       (case windowIndices cm c1 c2 c3 of
          None \<Rightarrow> (acc, n)
        | Some (i1, i2, i3) \<Rightarrow> (acc + transitionProbability M i1 i2 i3, n + 1))"
| "scoreLoop M cm cs (acc, n) = (acc, n)"

definition runTextThroughTrigramMatrix ::
  "TrigramMatrixLayer list \<Rightarrow> string \<Rightarrow> (nat \<rightharpoonup> nat) \<Rightarrow> bool \<Rightarrow> real" where
  "runTextThroughTrigramMatrix M textToScore cm ic =
     (case scoreLoop M cm (if ic then toLowerCase textToScore else textToScore) (0, 0) of
        (acc, n) \<Rightarrow> if n = 0 then 0 else acc / real n)"

text \<open>The average score of a sample set: the sum of the scores over the number of
  samples.  For an empty set that quotient is \<open>0 / 0\<close>, which JavaScript evaluates to
  \<^verbatim>\<open>NaN\<close> without raising an error.\<close>

definition averageScore ::
  "TrigramMatrixLayer list \<Rightarrow> string list \<Rightarrow> (nat \<rightharpoonup> nat) \<Rightarrow> bool \<Rightarrow> number" where
  "averageScore M samples cm ic =
     (if samples = [] then NaN
      else Number (sum_list (map (\<lambda>s. runTextThroughTrigramMatrix M s cm ic) samples)
                    / real (length samples)))"

text \<open>Modelled from the spec: \<^verbatim>\<open>getTrigramCutoffScores\<close> of \<^verbatim>\<open>trigram/trigramHelpers\<close>,
  whose source is missing.  Section 4.5: the central cutoff is the midpoint of the
  average good score and the average bad score; the strict and the loose cutoff lie a
  fraction of the distance from the midpoint to the good average away from it, one on
  each side.  On the sides the specification contradicts itself (it puts the strict cutoff
  closer to the bad average and has it classify more text as gibberish, under a test
  \<open>score < cutoff\<close>); the code's own documents settle them: the README prints the
  cutoffs \<open>loose = 0.0176 < avg = 0.0257 < strict = 0.0337\<close> and finds a text of score
  0.0299 gibberish at \<open>Strict\<close> and not at \<open>Loose\<close>, and \<^verbatim>\<open>index.ts\<close> documents
  \<open>Strict\<close> as the level that labels more text as gibberish.  So the strict cutoff
  lies on the side of the good average and the loose one on the side of the bad average.
  The function receives the five arguments of its two call sites in
  \<^verbatim>\<open>TrigramMatrix.ts\<close>, and the fraction; it is not given the triple stored before.
  Arithmetic on \<^verbatim>\<open>NaN\<close> gives \<^verbatim>\<open>NaN\<close>, so an average that is \<^verbatim>\<open>NaN\<close> makes all three
  cutoffs \<^verbatim>\<open>NaN\<close>.\<close>

definition getTrigramCutoffScores ::
  "fraction \<Rightarrow> TrigramMatrixLayer list \<Rightarrow> string list \<Rightarrow> string list \<Rightarrow> (nat \<rightharpoonup> nat) \<Rightarrow> bool \<Rightarrow> CutoffScore" where
  "getTrigramCutoffScores fraction M goodSamples badSamples cm ic =
     (case (averageScore M goodSamples cm ic, averageScore M badSamples cm ic) of
        (Number goodAvg, Number badAvg) \<Rightarrow>
          (let mid = (goodAvg + badAvg) / 2
           in \<lparr>strict = Number (mid + Rep_fraction fraction * (goodAvg - mid)),
               avg = Number mid,
               loose = Number (mid - Rep_fraction fraction * (goodAvg - mid))\<rparr>)
      | _ \<Rightarrow> \<lparr>strict = NaN, avg = NaN, loose = NaN\<rparr>)"


section \<open>The class TrigramMatrix\<close>

text \<open>Each method takes the instance and returns the instance it leaves behind, or its
  result.  An omitted argument of JavaScript is \<open>None\<close>; a default parameter takes its
  default value exactly then.\<close>

definition getScore :: "TrigramMatrix \<Rightarrow> string \<Rightarrow> real" where
  "getScore m textToScore =
     runTextThroughTrigramMatrix (trigramMatrix m) textToScore (charCodeMap m) (ignoreCase m)"

definition getCutoffScores :: "TrigramMatrix \<Rightarrow> CutoffScore" where
  "getCutoffScores m = cutoffScores m"

definition recalibrateCutoffScores ::
  "Externals \<Rightarrow> TrigramMatrix \<Rightarrow> string list option \<Rightarrow> string list option \<Rightarrow> TrigramMatrix" where
  "recalibrateCutoffScores E m goodSamples_arg badSamples_arg =
     (let goodSamples = (case goodSamples_arg of None \<Rightarrow> DEFAULT_GOOD_SAMPLES E | Some g \<Rightarrow> g);
          badSamples = (case badSamples_arg of None \<Rightarrow> DEFAULT_BAD_SAMPLES E | Some b \<Rightarrow> b)
      in m\<lparr>cutoffScores :=
             getTrigramCutoffScores (CUTOFF_FRACTION E) (trigramMatrix m) goodSamples badSamples
               (charCodeMap m) (ignoreCase m)\<rparr>)"

definition train :: "Externals \<Rightarrow> TrigramMatrix \<Rightarrow> string \<Rightarrow> TrigramMatrix" where
  "train E m trainingText =
     recalibrateCutoffScores E
       (m\<lparr>trigramMatrix :=
            trainTrigramMatrix (trigramMatrix m) trainingText (charCodeMap m) (charsToInclude m)
              (ignoreCase m)\<rparr>)
       (Some (savedGoodSamples m)) (Some (savedBadSamples m))"

text \<open>The comparison \<^verbatim>\<open>score < cutoff\<close> of JavaScript: false when the cutoff is \<^verbatim>\<open>NaN\<close>.\<close>

fun belowCutoff :: "real \<Rightarrow> number \<Rightarrow> bool" where
  "belowCutoff score (Number cutoff) = (score < cutoff)"
| "belowCutoff score NaN = False"

definition isGibberish :: "TrigramMatrix \<Rightarrow> string \<Rightarrow> CutoffScoreStrictness option \<Rightarrow> bool" where
  "isGibberish m text strictness_arg =
     (let strictness = (case strictness_arg of None \<Rightarrow> Avg | Some s \<Rightarrow> s);
          cutoff = (if strictness = Strict then strict (cutoffScores m)
                    else if strictness = Avg then avg (cutoffScores m)
                    else loose (cutoffScores m))
      in belowCutoff (getScore m text) cutoff)"

record WordAnalysis =
  numWords :: nat
  numGibberishWords :: nat
  words :: "(string \<times> real) list"
  gibberishWords :: "(string \<times> real) list"
  cutoffs :: CutoffScore

text \<open>The body of the \<^verbatim>\<open>for\<close> loop of \<^verbatim>\<open>getWordByWordAnalysis\<close>: the state is the pair of
  the arrays \<^verbatim>\<open>gibberishWords\<close> and \<^verbatim>\<open>words\<close> (here \<open>gibberish\<close> and \<open>all\<close>), and
  \<^verbatim>\<open>push\<close> appends at the end.\<close>

fun analysisLoop ::
  "TrigramMatrix \<Rightarrow> CutoffScoreStrictness option \<Rightarrow> string list \<Rightarrow>
   (string \<times> real) list \<times> (string \<times> real) list \<Rightarrow> (string \<times> real) list \<times> (string \<times> real) list" where
  "analysisLoop m strictness [] (gibberish, all) = (gibberish, all)"
| "analysisLoop m strictness (wToken # rest) (gibberish, all) =
     (let wordAndScoreBundle = (wToken, getScore m wToken)
      in analysisLoop m strictness rest
           (if isGibberish m wToken strictness then gibberish @ [wordAndScoreBundle]
            else gibberish,
            all @ [wordAndScoreBundle]))"

definition getWordByWordAnalysis ::
  "Externals \<Rightarrow> TrigramMatrix \<Rightarrow> string \<Rightarrow> CutoffScoreStrictness option \<Rightarrow> WordAnalysis" where
  "getWordByWordAnalysis E m text strictness =
     (let wordTokens = cleanAndExtractWordsFromTextToScore E text (ignoreCase m)
      in case analysisLoop m strictness wordTokens ([], []) of
           (gibberish, all) \<Rightarrow>
             \<lparr>numWords = length wordTokens,
              numGibberishWords = length gibberish,
              words = all,
              gibberishWords = gibberish,
              cutoffs = cutoffScores m\<rparr>)"


section \<open>The notions the specification speaks of\<close>

text \<open>The windows of a text: its adjacent triples of characters, from left to right.\<close>

fun triples :: "'a list \<Rightarrow> ('a \<times> 'a \<times> 'a) list" where
  "triples (c1 # c2 # c3 # cs) = (c1, c2, c3) # triples (c2 # c3 # cs)"
| "triples cs = []"

text \<open>The valid windows: those whose three characters all have an index, as their
  triples of indices.\<close>

definition validWindows :: "(nat \<rightharpoonup> nat) \<Rightarrow> string \<Rightarrow> (nat \<times> nat \<times> nat) list" where
  "validWindows cm s = List.map_filter (\<lambda>(c1, c2, c3). windowIndices cm c1 c2 c3) (triples s)"

text \<open>The text the helpers scan: the argument, in lower case when \<open>ignoreCase\<close> is set.\<close>

definition scannedText :: "bool \<Rightarrow> string \<Rightarrow> string" where
  "scannedText ic s = (if ic then toLowerCase s else s)"

text \<open>Counting a list of windows, one after the other.\<close>

definition countWindows :: "TrigramMatrixLayer list \<Rightarrow> (nat \<times> nat \<times> nat) list \<Rightarrow> TrigramMatrixLayer list" where
  "countWindows M ws = fold (\<lambda>(i1, i2, i3) M'. incrementCell M' i1 i2 i3) ws M"

text \<open>The seam of two corpora: the last two characters of the first and the first two of
  the second.  Its windows (two at most) are those of the concatenation that take
  characters from both.\<close>

definition seam :: "'a list \<Rightarrow> 'a list \<Rightarrow> 'a list" where
  "seam A B = drop (length A - 2) A @ take 2 B"

text \<open>The mean of the probabilities of the valid windows, zero when there is none.\<close>

definition meanProbability :: "TrigramMatrixLayer list \<Rightarrow> (nat \<times> nat \<times> nat) list \<Rightarrow> real" where
  "meanProbability M ws =
     (if ws = [] then 0
      else (\<Sum>(i1, i2, i3) \<leftarrow> ws. transitionProbability M i1 i2 i3) / real (length ws))"

text \<open>The invariant of the count table for an alphabet of \<open>k\<close> characters: \<open>k\<close> layers
  of \<open>k\<close> rows of \<open>k\<close> cells, no cell negative, and each layer's total the sum of the
  layer's cells.\<close>

definition layerSum :: "TrigramMatrixLayer \<Rightarrow> int" where
  "layerSum L = sum_list (map sum_list (countLayer L))"

definition layer_ok :: "nat \<Rightarrow> TrigramMatrixLayer \<Rightarrow> bool" where
  "layer_ok k L =
     (length (countLayer L) = k
      \<and> (\<forall>row \<in> set (countLayer L). length row = k \<and> (\<forall>x \<in> set row. 0 \<le> x))
      \<and> layerTotal L = layerSum L)"

definition matrix_ok :: "nat \<Rightarrow> TrigramMatrixLayer list \<Rightarrow> bool" where
  "matrix_ok k M = (length M = k \<and> (\<forall>L \<in> set M. layer_ok k L))"


section \<open>A small instance\<close>

text \<open>An alphabet of the two letters a and b, a fresh matrix for it, and the instance
  after one training call.\<close>

definition example_charCodeMap :: "nat \<rightharpoonup> nat" where
  "example_charCodeMap = [97 \<mapsto> 0, 98 \<mapsto> 1]"

definition example_externals :: Externals where
  "example_externals =
     \<lparr>DEFAULT_GOOD_SAMPLES = [''aab''], DEFAULT_BAD_SAMPLES = [''bbb''],
      CUTOFF_FRACTION = Abs_fraction (1 / 2),
      cleanAndExtractWordsFromTextToScore = (\<lambda>s ic. [s])\<rparr>"

definition example_fresh :: TrigramMatrix where
  "example_fresh =
     \<lparr>alphaSize = 2, charsToInclude = ''ab'', trigramMatrix = createEmptyTrigramMatrix 2,
      cutoffScores = \<lparr>strict = Number 0, avg = Number 0, loose = Number 0\<rparr>,
      charCodeMap = example_charCodeMap,
      savedGoodSamples = [''aaa''], savedBadSamples = [''bbb''], ignoreCase = True\<rparr>"

definition example_trained :: TrigramMatrix where
  "example_trained = train example_externals example_fresh ''aaabaab''"

definition example_recalibrated :: TrigramMatrix where
  "example_recalibrated =
     recalibrateCutoffScores example_externals example_trained (Some [''aab'']) (Some [''bbb''])"


section \<open>What the methods leave unchanged\<close>

lemma recalibrateCutoffScores_fields:
  "trigramMatrix (recalibrateCutoffScores E m g b) = trigramMatrix m"
  "charCodeMap (recalibrateCutoffScores E m g b) = charCodeMap m"
  "charsToInclude (recalibrateCutoffScores E m g b) = charsToInclude m"
  "ignoreCase (recalibrateCutoffScores E m g b) = ignoreCase m"
  "alphaSize (recalibrateCutoffScores E m g b) = alphaSize m"
  "savedGoodSamples (recalibrateCutoffScores E m g b) = savedGoodSamples m"
  "savedBadSamples (recalibrateCutoffScores E m g b) = savedBadSamples m"
  by (simp_all add: recalibrateCutoffScores_def)

lemma train_fields:
  "trigramMatrix (train E m s) =
     trainTrigramMatrix (trigramMatrix m) s (charCodeMap m) (charsToInclude m) (ignoreCase m)"
  "charCodeMap (train E m s) = charCodeMap m"
  "charsToInclude (train E m s) = charsToInclude m"
  "ignoreCase (train E m s) = ignoreCase m"
  "alphaSize (train E m s) = alphaSize m"
  "savedGoodSamples (train E m s) = savedGoodSamples m"
  "savedBadSamples (train E m s) = savedBadSamples m"
  by (simp_all add: train_def recalibrateCutoffScores_fields)


section \<open>Classification\<close>

text \<open>
  C4: for every text, strictness and instance, \<open>isGibberish\<close> is true exactly when the
  score of the text is strictly below the cutoff the strictness selects (an omitted
  strictness selects \<open>avg\<close>); a score equal to the selected cutoff is not gibberish.
\<close>

theorem isGibberish_compares_strictly:
  "isGibberish m text (Some Strict) = belowCutoff (getScore m text) (strict (cutoffScores m))
   \<and> isGibberish m text (Some Avg) = belowCutoff (getScore m text) (avg (cutoffScores m))
   \<and> isGibberish m text (Some Loose) = belowCutoff (getScore m text) (loose (cutoffScores m))
   \<and> isGibberish m text None = isGibberish m text (Some Avg)
   \<and> (strict (cutoffScores m) = Number c
        \<longrightarrow> isGibberish m text (Some Strict) = (getScore m text < c))
   \<and> (avg (cutoffScores m) = Number c
        \<longrightarrow> isGibberish m text (Some Avg) = (getScore m text < c))
   \<and> (loose (cutoffScores m) = Number c
        \<longrightarrow> isGibberish m text (Some Loose) = (getScore m text < c))
   \<and> (strict (cutoffScores m) = Number (getScore m text) \<longrightarrow> \<not> isGibberish m text (Some Strict))
   \<and> (avg (cutoffScores m) = Number (getScore m text) \<longrightarrow> \<not> isGibberish m text (Some Avg))
   \<and> (loose (cutoffScores m) = Number (getScore m text) \<longrightarrow> \<not> isGibberish m text (Some Loose))"
  by (simp add: isGibberish_def)

theorem isGibberish_compares_strictly_witness:
  "strict (cutoffScores example_fresh) = Number (getScore example_fresh ''aab'')
   \<and> avg (cutoffScores example_fresh) = Number (getScore example_fresh ''aab'')
   \<and> loose (cutoffScores example_fresh) = Number (getScore example_fresh ''aab'')
   \<and> \<not> isGibberish example_fresh ''aab'' (Some Strict)
   \<and> \<not> isGibberish example_fresh ''aab'' (Some Avg)
   \<and> \<not> isGibberish example_fresh ''aab'' (Some Loose)"
proof -
  have score: "getScore example_fresh ''aab'' = 0"
    by code_simp
  have stored: "cutoffScores example_fresh = \<lparr>strict = Number 0, avg = Number 0, loose = Number 0\<rparr>"
    by (simp add: example_fresh_def)
  from isGibberish_compares_strictly [of example_fresh "''aab''" 0] score stored
  show ?thesis by simp
qed


section \<open>Word-by-word analysis\<close>

lemma analysisLoop_eq:
  "analysisLoop m s toks (g, a) =
     (g @ map (\<lambda>w. (w, getScore m w)) (filter (\<lambda>w. isGibberish m w s) toks),
      a @ map (\<lambda>w. (w, getScore m w)) toks)"
  by (induction toks arbitrary: g a) (simp_all add: Let_def)

text \<open>
  C10: in the result of \<open>getWordByWordAnalysis\<close>, \<open>numWords\<close> is the length of \<open>words\<close>,
  \<open>numGibberishWords\<close> the length of \<open>gibberishWords\<close>; \<open>words\<close> pairs each token of the
  tokenizer, in order, with its score; \<open>gibberishWords\<close> is the subsequence of \<open>words\<close>
  whose tokens are gibberish at the given strictness; \<open>cutoffs\<close> is the stored triple.
\<close>

theorem getWordByWordAnalysis_result:
  "numWords (getWordByWordAnalysis E m text s) = length (words (getWordByWordAnalysis E m text s))
   \<and> numGibberishWords (getWordByWordAnalysis E m text s)
        = length (gibberishWords (getWordByWordAnalysis E m text s))
   \<and> words (getWordByWordAnalysis E m text s)
        = map (\<lambda>w. (w, getScore m w)) (cleanAndExtractWordsFromTextToScore E text (ignoreCase m))
   \<and> gibberishWords (getWordByWordAnalysis E m text s)
        = filter (\<lambda>(w, sc). isGibberish m w s) (words (getWordByWordAnalysis E m text s))
   \<and> cutoffs (getWordByWordAnalysis E m text s) = cutoffScores m"
  by (simp add: getWordByWordAnalysis_def Let_def analysisLoop_eq filter_map comp_def)


section \<open>The calibration helper on numbers and on an empty set\<close>


lemma averageScore_empty: "averageScore M [] cm ic = NaN"
  by (simp add: averageScore_def)

lemma getTrigramCutoffScores_numbers:
  assumes "averageScore M goodSamples cm ic = Number goodAvg"
    and "averageScore M badSamples cm ic = Number badAvg"
  shows "getTrigramCutoffScores f M goodSamples badSamples cm ic =
           \<lparr>strict = Number ((goodAvg + badAvg) / 2 + Rep_fraction f * (goodAvg - (goodAvg + badAvg) / 2)),
            avg = Number ((goodAvg + badAvg) / 2),
            loose = Number ((goodAvg + badAvg) / 2 - Rep_fraction f * (goodAvg - (goodAvg + badAvg) / 2))\<rparr>"
  using assms by (simp add: getTrigramCutoffScores_def Let_def)

lemma getTrigramCutoffScores_empty:
  "getTrigramCutoffScores f M [] badSamples cm ic = \<lparr>strict = NaN, avg = NaN, loose = NaN\<rparr>"
  "getTrigramCutoffScores f M goodSamples [] cm ic = \<lparr>strict = NaN, avg = NaN, loose = NaN\<rparr>"
  by (simp_all add: getTrigramCutoffScores_def averageScore_empty split: number.splits)

lemma example_fraction: "Rep_fraction (CUTOFF_FRACTION example_externals) = 1 / 2"
  by (simp add: example_externals_def Abs_fraction_inverse)

lemma train_cutoffScores:
  "cutoffScores (train E m s) =
     getTrigramCutoffScores (CUTOFF_FRACTION E) (trigramMatrix (train E m s))
       (savedGoodSamples m) (savedBadSamples m) (charCodeMap m) (ignoreCase m)"
  by (simp add: train_def recalibrateCutoffScores_def)

lemma recalibrate_cutoffScores:
  "cutoffScores (recalibrateCutoffScores E m (Some g) (Some b)) =
     getTrigramCutoffScores (CUTOFF_FRACTION E) (trigramMatrix m) g b (charCodeMap m) (ignoreCase m)"
  by (simp add: recalibrateCutoffScores_def)

text \<open>The scores and averages on the small instance.\<close>

lemma example_trained_table:
  "trigramMatrix example_trained =
     [\<lparr>countLayer = [[1, 2], [1, 0]], layerTotal = 4\<rparr>,
      \<lparr>countLayer = [[1, 0], [0, 0]], layerTotal = 1\<rparr>]"
  "charCodeMap example_trained = example_charCodeMap"
  "ignoreCase example_trained = True"
  "savedGoodSamples example_trained = [''aaa'']"
  "savedBadSamples example_trained = [''bbb'']"
proof -
  show "trigramMatrix example_trained =
     [\<lparr>countLayer = [[1, 2], [1, 0]], layerTotal = 4\<rparr>,
      \<lparr>countLayer = [[1, 0], [0, 0]], layerTotal = 1\<rparr>]"
    by code_simp
qed (simp_all add: example_trained_def train_fields example_fresh_def)

lemma example_trained_averages:
  "averageScore (trigramMatrix example_trained) [''aaa''] example_charCodeMap True = Number (1 / 4)"
  "averageScore (trigramMatrix example_trained) [''aab''] example_charCodeMap True = Number (1 / 2)"
  "averageScore (trigramMatrix example_trained) [''bbb''] example_charCodeMap True = Number 0"
  "averageScore (trigramMatrix example_trained) [''aab'', ''aaa''] example_charCodeMap True = Number (3 / 8)"
  "averageScore (trigramMatrix example_trained) [''bbb'', ''aba''] example_charCodeMap True = Number (1 / 8)"
  by code_simp+


lemma example_recalibrated_cutoffs:
  "cutoffScores example_recalibrated =
     \<lparr>strict = Number (3 / 8), avg = Number (1 / 4), loose = Number (1 / 8)\<rparr>"
  unfolding example_recalibrated_def recalibrate_cutoffScores example_trained_table
  by (simp add: getTrigramCutoffScores_numbers [OF example_trained_averages(2,3), unfolded example_trained_table]
      example_fraction)


section \<open>Recalibration\<close>

text \<open>
  C9: \<open>recalibrateCutoffScores\<close> with both arguments omitted calibrates against the two
  default sample arrays; the sample sets saved on the instance play no part.
\<close>

theorem recalibrate_omitted_uses_defaults:
  "cutoffScores (recalibrateCutoffScores E m None None) =
     getTrigramCutoffScores (CUTOFF_FRACTION E) (trigramMatrix m)
       (DEFAULT_GOOD_SAMPLES E) (DEFAULT_BAD_SAMPLES E) (charCodeMap m) (ignoreCase m)
   \<and> cutoffScores (recalibrateCutoffScores E (m\<lparr>savedGoodSamples := g, savedBadSamples := b\<rparr>) None None)
       = cutoffScores (recalibrateCutoffScores E m None None)"
  by (simp add: recalibrateCutoffScores_def)

text \<open>On the small instance the defaults and the saved sets give different cutoffs.\<close>

lemma recalibrate_omitted_example:
  "cutoffScores (recalibrateCutoffScores example_externals example_trained None None)
     = \<lparr>strict = Number (3 / 8), avg = Number (1 / 4), loose = Number (1 / 8)\<rparr>
   \<and> cutoffScores
        (recalibrateCutoffScores example_externals example_trained
           (Some (savedGoodSamples example_trained)) (Some (savedBadSamples example_trained)))
     = \<lparr>strict = Number (3 / 16), avg = Number (1 / 8), loose = Number (1 / 16)\<rparr>"
proof -
  have defaults: "DEFAULT_GOOD_SAMPLES example_externals = [''aab'']"
                 "DEFAULT_BAD_SAMPLES example_externals = [''bbb'']"
    by (simp_all add: example_externals_def)
  show ?thesis
    by (simp add: recalibrateCutoffScores_def defaults example_trained_table(2-5) example_fraction
        getTrigramCutoffScores_numbers [OF example_trained_averages(2,3)]
        getTrigramCutoffScores_numbers [OF example_trained_averages(1,3)])
qed



text \<open>With such a triple stored, no text is gibberish at any strictness.\<close>

lemma recalibrate_empty_gives_NaN:
  assumes "goodSamples = [] \<or> badSamples = []"
  shows "cutoffScores (recalibrateCutoffScores E m (Some goodSamples) (Some badSamples))
           = \<lparr>strict = NaN, avg = NaN, loose = NaN\<rparr>"
    and "\<not> isGibberish (recalibrateCutoffScores E m (Some goodSamples) (Some badSamples)) text s"
proof -
  show c: "cutoffScores (recalibrateCutoffScores E m (Some goodSamples) (Some badSamples))
             = \<lparr>strict = NaN, avg = NaN, loose = NaN\<rparr>"
    using assms by (auto simp: recalibrate_cutoffScores getTrigramCutoffScores_empty)
  show "\<not> isGibberish (recalibrateCutoffScores E m (Some goodSamples) (Some badSamples)) text s"
    by (simp add: isGibberish_def c)
qed


section \<open>Training and the cutoffs\<close>

text \<open>
  C2, as the code has it: after \<open>train\<close> the stored triple is the calibration of the
  updated matrix against the sample sets saved on the instance; neither \<open>train\<close> nor
  \<open>recalibrateCutoffScores\<close> changes the saved sets.
\<close>

theorem train_recalibrates_with_saved:
  "cutoffScores (train E m text) =
     getTrigramCutoffScores (CUTOFF_FRACTION E) (trigramMatrix (train E m text))
       (savedGoodSamples m) (savedBadSamples m) (charCodeMap m) (ignoreCase m)
   \<and> trigramMatrix (train E m text) =
       trainTrigramMatrix (trigramMatrix m) text (charCodeMap m) (charsToInclude m) (ignoreCase m)
   \<and> savedGoodSamples (train E m text) = savedGoodSamples m
   \<and> savedBadSamples (train E m text) = savedBadSamples m
   \<and> savedGoodSamples (recalibrateCutoffScores E m g b) = savedGoodSamples m
   \<and> savedBadSamples (recalibrateCutoffScores E m g b) = savedBadSamples m"
  by (simp add: train_def recalibrateCutoffScores_def)

text \<open>
  C2 as stated fails: after \<open>recalibrateCutoffScores\<close> with the sets \<open>[aab]\<close> and
  \<open>[bbb]\<close>, a call of \<open>train\<close> does not leave the calibration against these most recently
  supplied sets.
\<close>

theorem train_ignores_latest_samples:
  "cutoffScores (train example_externals example_recalibrated ''aaab'')
     \<noteq> getTrigramCutoffScores (CUTOFF_FRACTION example_externals)
          (trigramMatrix (train example_externals example_recalibrated ''aaab''))
          [''aab''] [''bbb'']
          (charCodeMap (train example_externals example_recalibrated ''aaab''))
          (ignoreCase (train example_externals example_recalibrated ''aaab''))"
proof -
  let ?M = "trigramMatrix (train example_externals example_recalibrated ''aaab'')"
  have fields:
    "savedGoodSamples example_recalibrated = [''aaa'']"
    "savedBadSamples example_recalibrated = [''bbb'']"
    "charCodeMap example_recalibrated = example_charCodeMap"
    "ignoreCase example_recalibrated = True"
    by (simp_all add: example_recalibrated_def recalibrateCutoffScores_fields example_trained_table)
  have saved: "averageScore ?M [''aaa''] example_charCodeMap True = Number (1 / 3)"
    and latest: "averageScore ?M [''aab''] example_charCodeMap True = Number (1 / 2)"
    and bad: "averageScore ?M [''bbb''] example_charCodeMap True = Number 0"
    by code_simp+
  have "avg (cutoffScores (train example_externals example_recalibrated ''aaab'')) = Number (1 / 6)"
    by (simp add: train_cutoffScores fields getTrigramCutoffScores_numbers [OF saved bad])
  moreover have "avg (getTrigramCutoffScores (CUTOFF_FRACTION example_externals) ?M [''aab''] [''bbb'']
                   (charCodeMap (train example_externals example_recalibrated ''aaab''))
                   (ignoreCase (train example_externals example_recalibrated ''aaab''))) = Number (1 / 4)"
    by (simp add: train_fields(2,4) fields getTrigramCutoffScores_numbers [OF latest bad])
  ultimately show ?thesis by auto
qed


section \<open>The loops, window by window\<close>

lemma validWindows_step:
  "validWindows cm (c1 # c2 # c3 # cs) =
     (case windowIndices cm c1 c2 c3 of None \<Rightarrow> [] | Some w \<Rightarrow> [w]) @ validWindows cm (c2 # c3 # cs)"
  by (simp add: validWindows_def List.map_filter_simps split: option.splits)

lemma validWindows_short:
  "validWindows cm [] = []" "validWindows cm [c1] = []" "validWindows cm [c1, c2] = []"
  by (simp_all add: validWindows_def List.map_filter_simps)

lemma trainLoop_countWindows: "trainLoop M cm s = countWindows M (validWindows cm s)"
proof (induction M cm s rule: trainLoop.induct)
  case (1 M cm c1 c2 c3 cs)
  then show ?case
    by (simp add: validWindows_step countWindows_def split: option.splits)
qed (simp_all add: countWindows_def validWindows_short)

lemma trainTrigramMatrix_countWindows:
  "trainTrigramMatrix M s cm al ic = countWindows M (validWindows cm (scannedText ic s))"
  by (simp add: trainTrigramMatrix_def scannedText_def trainLoop_countWindows)

lemma scoreLoop_sum:
  "scoreLoop M cm s (acc, n) =
     (acc + (\<Sum>(i1, i2, i3) \<leftarrow> validWindows cm s. transitionProbability M i1 i2 i3),
      n + length (validWindows cm s))"
proof (induction M cm s "(acc, n)" arbitrary: acc n rule: scoreLoop.induct)
  case (1 M cm c1 c2 c3 cs acc n)
  then show ?case
    by (simp add: validWindows_step split: option.splits)
qed (simp_all add: validWindows_short)

lemma runTextThroughTrigramMatrix_mean:
  "runTextThroughTrigramMatrix M s cm ic = meanProbability M (validWindows cm (scannedText ic s))"
  by (simp add: runTextThroughTrigramMatrix_def scoreLoop_sum meanProbability_def scannedText_def)

section \<open>One cell under counting\<close>

lemma incrementCell_length: "length (incrementCell M a b c) = length M"
  by (simp add: incrementCell_def)

lemma incrementCell_dims:
  assumes "l < length M"
  shows "length (countLayer (incrementCell M a b c ! l)) = length (countLayer (M ! l))"
    and "i < length (countLayer (M ! l)) \<Longrightarrow>
         length (countLayer (incrementCell M a b c ! l) ! i) = length (countLayer (M ! l) ! i)"
proof -
  show "length (countLayer (incrementCell M a b c ! l)) = length (countLayer (M ! l))"
    using assms by (cases "a = l") (simp_all add: incrementCell_def)
  show "length (countLayer (incrementCell M a b c ! l) ! i) = length (countLayer (M ! l) ! i)"
    if "i < length (countLayer (M ! l))"
    using assms that by (cases "a = l"; cases "b = i") (simp_all add: incrementCell_def)
qed

lemma incrementCell_cell:
  assumes "l < length M" "i < length (countLayer (M ! l))" "j < length (countLayer (M ! l) ! i)"
  shows "countLayer (incrementCell M a b c ! l) ! i ! j =
           countLayer (M ! l) ! i ! j + (if (a, b, c) = (l, i, j) then 1 else 0)"
  using assms by (cases "a = l"; cases "b = i"; cases "c = j") (simp_all add: incrementCell_def)

lemma incrementCell_total:
  assumes "l < length M"
  shows "layerTotal (incrementCell M a b c ! l) = layerTotal (M ! l) + (if a = l then 1 else 0)"
  using assms by (cases "a = l") (simp_all add: incrementCell_def)

lemma countWindows_Cons:
  "countWindows M ((a, b, c) # ws) = countWindows (incrementCell M a b c) ws"
  by (simp add: countWindows_def)

lemma countWindows_Nil: "countWindows M [] = M"
  by (simp add: countWindows_def)

lemma countWindows_length: "length (countWindows M ws) = length M"
  by (induction ws arbitrary: M) (auto simp: countWindows_Nil countWindows_Cons incrementCell_length)

lemma countWindows_cell:
  assumes "l < length M" "i < length (countLayer (M ! l))" "j < length (countLayer (M ! l) ! i)"
  shows "length (countLayer (countWindows M ws ! l)) = length (countLayer (M ! l))
         \<and> length (countLayer (countWindows M ws ! l) ! i) = length (countLayer (M ! l) ! i)
         \<and> countLayer (countWindows M ws ! l) ! i ! j =
             countLayer (M ! l) ! i ! j + int (count_list ws (l, i, j))"
  using assms
proof (induction ws arbitrary: M)
  case Nil
  then show ?case by (simp add: countWindows_Nil)
next
  case (Cons w ws)
  obtain a b c where w: "w = (a, b, c)" by (cases w)
  let ?M = "incrementCell M a b c"
  have l: "l < length ?M" using Cons.prems by (simp add: incrementCell_length)
  have d1: "length (countLayer (?M ! l)) = length (countLayer (M ! l))"
    using Cons.prems by (simp add: incrementCell_dims)
  have d2: "length (countLayer (?M ! l) ! i) = length (countLayer (M ! l) ! i)"
    using Cons.prems by (simp add: incrementCell_dims)
  have step: "countLayer (?M ! l) ! i ! j =
                countLayer (M ! l) ! i ! j + (if (a, b, c) = (l, i, j) then 1 else 0)"
    using Cons.prems by (rule incrementCell_cell)
  from Cons.IH [of ?M] l d1 d2 Cons.prems
  have "length (countLayer (countWindows ?M ws ! l)) = length (countLayer (?M ! l))
         \<and> length (countLayer (countWindows ?M ws ! l) ! i) = length (countLayer (?M ! l) ! i)
         \<and> countLayer (countWindows ?M ws ! l) ! i ! j =
             countLayer (?M ! l) ! i ! j + int (count_list ws (l, i, j))"
    by simp
  with d1 d2 step show ?case
    by (auto simp: w countWindows_Cons)
qed

lemma countWindows_total:
  assumes "l < length M"
  shows "layerTotal (countWindows M ws ! l) =
           layerTotal (M ! l) + int (length (filter (\<lambda>(a, b, c). a = l) ws))"
  using assms
proof (induction ws arbitrary: M)
  case Nil
  then show ?case by (simp add: countWindows_Nil)
next
  case (Cons w ws)
  obtain a b c where w: "w = (a, b, c)" by (cases w)
  from Cons.IH [of "incrementCell M a b c"] Cons.prems
  show ?case
    by (simp add: w countWindows_Cons incrementCell_length incrementCell_total)
qed

section \<open>Concatenated texts\<close>

lemma triples_seam_short:
  "triples (take 2 B) @ triples B = triples B"
  "triples (a # take 2 B) @ triples B = triples (a # B)"
  "triples (a # b # take 2 B) @ triples B = triples (a # b # B)"
  by (cases B rule: triples.cases; simp)+

lemma triples_append: "triples (A @ B) = triples A @ triples (seam A B) @ triples B"
proof (induction A rule: triples.induct)
  case (1 c1 c2 c3 cs)
  then show ?case by (simp add: seam_def Suc_diff_le)
qed (simp_all add: seam_def triples_seam_short)

lemma validWindows_append:
  "validWindows cm (A @ B) = validWindows cm A @ validWindows cm (seam A B) @ validWindows cm B"
  by (simp add: validWindows_def triples_append List.map_filter_def)

lemma scannedText_append: "scannedText ic (A @ B) = scannedText ic A @ scannedText ic B"
  by (simp add: scannedText_def toLowerCase_def)

lemma scannedText_seam: "scannedText ic (seam A B) = seam (scannedText ic A) (scannedText ic B)"
  by (simp add: scannedText_def toLowerCase_def seam_def drop_map take_map)

lemma validWindows_scanned_append:
  "validWindows cm (scannedText ic (A @ B)) =
     validWindows cm (scannedText ic A) @ validWindows cm (scannedText ic (seam A B))
       @ validWindows cm (scannedText ic B)"
  by (simp add: scannedText_append scannedText_seam validWindows_append)

lemma countWindows_append: "countWindows M (ws @ vs) = countWindows (countWindows M ws) vs"
  by (simp add: countWindows_def)

lemma train_matrix:
  "trigramMatrix (train E m s) =
     countWindows (trigramMatrix m) (validWindows (charCodeMap m) (scannedText (ignoreCase m) s))"
  by (simp add: train_fields trainTrigramMatrix_countWindows)


section \<open>Training and the counts\<close>

text \<open>
  C6: training counts each window whose three characters all have an index once, in cell
  \<open>(idx c2, idx c3)\<close> of layer \<open>idx c1\<close> and in that layer's total, and passes over
  every other window: the matrix after \<open>train\<close> is the old one with the valid windows of
  the text counted in order, a cell grows by the number of valid windows that name it, and
  a layer total by the number of valid windows that start in the layer.
\<close>

theorem train_counts_valid_windows:
  assumes "l < length (trigramMatrix m)"
    and "i < length (countLayer (trigramMatrix m ! l))"
    and "j < length (countLayer (trigramMatrix m ! l) ! i)"
  shows "trigramMatrix (train E m text) =
           countWindows (trigramMatrix m) (validWindows (charCodeMap m) (scannedText (ignoreCase m) text))
         \<and> countLayer (trigramMatrix (train E m text) ! l) ! i ! j =
             countLayer (trigramMatrix m ! l) ! i ! j
             + int (count_list (validWindows (charCodeMap m) (scannedText (ignoreCase m) text)) (l, i, j))
         \<and> layerTotal (trigramMatrix (train E m text) ! l) =
             layerTotal (trigramMatrix m ! l)
             + int (length (filter (\<lambda>(a, b, c). a = l)
                     (validWindows (charCodeMap m) (scannedText (ignoreCase m) text))))"
  using countWindows_cell [OF assms] countWindows_total [OF assms(1)]
  by (simp add: train_matrix)

theorem train_counts_valid_windows_witness:
  "(0::nat) < length (trigramMatrix example_fresh)
   \<and> (0::nat) < length (countLayer (trigramMatrix example_fresh ! 0))
   \<and> (1::nat) < length (countLayer (trigramMatrix example_fresh ! 0) ! 0)
   \<and> validWindows (charCodeMap example_fresh) (scannedText (ignoreCase example_fresh) ''aAxaab'')
       = [(0, 0, 1)]
   \<and> countLayer (trigramMatrix (train example_externals example_fresh ''aAxaab'') ! 0) ! 0 ! 1 = 1
   \<and> layerTotal (trigramMatrix (train example_externals example_fresh ''aAxaab'') ! 0) = 1"
proof -
  have l: "(0::nat) < length (trigramMatrix example_fresh)"
    by code_simp
  have i: "(0::nat) < length (countLayer (trigramMatrix example_fresh ! 0))"
    by code_simp
  have j: "(1::nat) < length (countLayer (trigramMatrix example_fresh ! 0) ! 0)"
    by code_simp
  have ws: "validWindows (charCodeMap example_fresh) (scannedText (ignoreCase example_fresh) ''aAxaab'')
              = [(0, 0, 1)]"
    by code_simp
  have before: "countLayer (trigramMatrix example_fresh ! 0) ! 0 ! 1 = 0"
               "layerTotal (trigramMatrix example_fresh ! 0) = 0"
    by code_simp+
  from train_counts_valid_windows [OF l i j, of example_externals "''aAxaab''", THEN conjunct2]
  have "countLayer (trigramMatrix (train example_externals example_fresh ''aAxaab'') ! 0) ! 0 ! 1 = 1
        \<and> layerTotal (trigramMatrix (train example_externals example_fresh ''aAxaab'') ! 0) = 1"
    by (simp only: ws before) simp
  with l i j ws show ?thesis by simp
qed


text \<open>
  C8: training on the concatenation of \<open>A\<close> and \<open>B\<close> is training on \<open>A\<close>, on the seam
  and on \<open>B\<close>; cell by cell it gives what training on \<open>A\<close> and then on \<open>B\<close> gives,
  plus the valid windows of the seam; and a training call only adds to the counts it
  finds.
\<close>

theorem train_concatenation:
  assumes "l < length (trigramMatrix m)"
    and "i < length (countLayer (trigramMatrix m ! l))"
    and "j < length (countLayer (trigramMatrix m ! l) ! i)"
  shows "trigramMatrix (train E m (A @ B)) =
           trigramMatrix (train E (train E (train E m A) (seam A B)) B)
         \<and> countLayer (trigramMatrix (train E m (A @ B)) ! l) ! i ! j =
             countLayer (trigramMatrix (train E (train E m A) B) ! l) ! i ! j
             + int (count_list (validWindows (charCodeMap m) (scannedText (ignoreCase m) (seam A B))) (l, i, j))
         \<and> layerTotal (trigramMatrix (train E m (A @ B)) ! l) =
             layerTotal (trigramMatrix (train E (train E m A) B) ! l)
             + int (length (filter (\<lambda>(a, b, c). a = l)
                     (validWindows (charCodeMap m) (scannedText (ignoreCase m) (seam A B)))))
         \<and> countLayer (trigramMatrix m ! l) ! i ! j
             \<le> countLayer (trigramMatrix (train E m A) ! l) ! i ! j
         \<and> layerTotal (trigramMatrix m ! l) \<le> layerTotal (trigramMatrix (train E m A) ! l)"
proof -
  let ?cm = "charCodeMap m" and ?ic = "ignoreCase m"
  let ?wA = "validWindows ?cm (scannedText ?ic A)"
  let ?wB = "validWindows ?cm (scannedText ?ic B)"
  let ?wS = "validWindows ?cm (scannedText ?ic (seam A B))"
  let ?M = "trigramMatrix m"
  have eq: "trigramMatrix (train E m (A @ B)) =
              trigramMatrix (train E (train E (train E m A) (seam A B)) B)"
    by (simp add: train_matrix train_fields(2,4) validWindows_scanned_append countWindows_append)
  have whole: "trigramMatrix (train E m (A @ B)) = countWindows ?M (?wA @ ?wS @ ?wB)"
    by (simp add: train_matrix validWindows_scanned_append)
  have parts: "trigramMatrix (train E (train E m A) B) = countWindows ?M (?wA @ ?wB)"
    by (simp add: train_matrix train_fields(2,4) countWindows_append)
  have first: "trigramMatrix (train E m A) = countWindows ?M ?wA"
    by (simp add: train_matrix)
  from countWindows_cell [OF assms, of "?wA @ ?wS @ ?wB"] countWindows_cell [OF assms, of "?wA @ ?wB"]
  have cells: "countLayer (countWindows ?M (?wA @ ?wS @ ?wB) ! l) ! i ! j =
                 countLayer (countWindows ?M (?wA @ ?wB) ! l) ! i ! j + int (count_list ?wS (l, i, j))"
    by simp
  from countWindows_total [OF assms(1), of "?wA @ ?wS @ ?wB"] countWindows_total [OF assms(1), of "?wA @ ?wB"]
  have totals: "layerTotal (countWindows ?M (?wA @ ?wS @ ?wB) ! l) =
                  layerTotal (countWindows ?M (?wA @ ?wB) ! l)
                  + int (length (filter (\<lambda>(a, b, c). a = l) ?wS))"
    by simp
  from countWindows_cell [OF assms, of ?wA]
  have grow: "countLayer (?M ! l) ! i ! j \<le> countLayer (countWindows ?M ?wA ! l) ! i ! j"
    by simp
  from countWindows_total [OF assms(1), of ?wA]
  have grow_total: "layerTotal (?M ! l) \<le> layerTotal (countWindows ?M ?wA ! l)"
    by simp
  from eq cells totals grow grow_total show ?thesis
    by (simp only: whole parts first)
qed

theorem train_concatenation_witness:
  "(0::nat) < length (trigramMatrix example_fresh)
   \<and> (1::nat) < length (countLayer (trigramMatrix example_fresh ! 0))
   \<and> (0::nat) < length (countLayer (trigramMatrix example_fresh ! 0) ! 1)
   \<and> seam ''aab'' ''abb'' = ''abab''
   \<and> countLayer (trigramMatrix (train example_externals example_fresh (''aab'' @ ''abb'')) ! 0) ! 1 ! 0
       = countLayer (trigramMatrix
           (train example_externals (train example_externals example_fresh ''aab'') ''abb'') ! 0) ! 1 ! 0 + 1
   \<and> layerTotal (trigramMatrix (train example_externals example_fresh (''aab'' @ ''abb'')) ! 0)
       = layerTotal (trigramMatrix
           (train example_externals (train example_externals example_fresh ''aab'') ''abb'') ! 0) + 1"
proof -
  have l: "(0::nat) < length (trigramMatrix example_fresh)"
    by code_simp
  have i: "(1::nat) < length (countLayer (trigramMatrix example_fresh ! 0))"
    by code_simp
  have j: "(0::nat) < length (countLayer (trigramMatrix example_fresh ! 0) ! 1)"
    by code_simp
  have s: "seam ''aab'' ''abb'' = ''abab''"
    by code_simp
  have ws: "validWindows (charCodeMap example_fresh)
              (scannedText (ignoreCase example_fresh) (seam ''aab'' ''abb'')) = [(0, 1, 0), (1, 0, 1)]"
    by code_simp
  from train_concatenation [OF l i j, of example_externals "''aab''" "''abb''", THEN conjunct2]
  have "countLayer (trigramMatrix (train example_externals example_fresh (''aab'' @ ''abb'')) ! 0) ! 1 ! 0
          = countLayer (trigramMatrix
              (train example_externals (train example_externals example_fresh ''aab'') ''abb'') ! 0) ! 1 ! 0 + 1
        \<and> layerTotal (trigramMatrix (train example_externals example_fresh (''aab'' @ ''abb'')) ! 0)
          = layerTotal (trigramMatrix
              (train example_externals (train example_externals example_fresh ''aab'') ''abb'') ! 0) + 1"
    by (simp only: ws) simp
  with l i j s show ?thesis by simp
qed


section \<open>The invariant of the count table\<close>

lemma sum_list_update_int:
  "i < length xs \<Longrightarrow> sum_list (xs[i := x]) = sum_list xs - xs ! i + (x::int)"
proof (induction xs arbitrary: i)
  case Nil
  then show ?case by simp
next
  case (Cons y ys)
  then show ?case by (cases i) simp_all
qed

lemma layer_ok_increment:
  assumes ok: "layer_ok k L" and b: "b < k" and c: "c < k"
  shows "layer_ok k \<lparr>countLayer = (countLayer L)[b := (countLayer L ! b)[c := countLayer L ! b ! c + 1]],
                      layerTotal = layerTotal L + 1\<rparr>"
proof -
  let ?cl = "countLayer L"
  let ?row = "(?cl ! b)[c := ?cl ! b ! c + 1]"
  from ok have len: "length ?cl = k"
    and rows: "\<And>r. r \<in> set ?cl \<Longrightarrow> length r = k \<and> (\<forall>x \<in> set r. 0 \<le> x)"
    and total: "layerTotal L = sum_list (map sum_list ?cl)"
    by (auto simp: layer_ok_def layerSum_def)
  from len b have rb: "?cl ! b \<in> set ?cl" by simp
  with rows have rb_len: "length (?cl ! b) = k" and rb_pos: "\<forall>x \<in> set (?cl ! b). 0 \<le> x"
    by auto
  from rb_pos rb_len c have "0 \<le> ?cl ! b ! c" by simp
  with rb_pos have row_pos: "\<forall>x \<in> set ?row. 0 \<le> x"
    using set_update_subset_insert [of "?cl ! b" c "?cl ! b ! c + 1"] by auto
  have row_len: "length ?row = k" using rb_len by simp
  have rows': "\<forall>r \<in> set (?cl[b := ?row]). length r = k \<and> (\<forall>x \<in> set r. 0 \<le> x)"
    using set_update_subset_insert [of ?cl b ?row] rows row_pos row_len by auto
  have "sum_list ?row = sum_list (?cl ! b) + 1"
    using rb_len c by (simp add: sum_list_update_int)
  moreover have "sum_list (map sum_list (?cl[b := ?row])) =
                   sum_list (map sum_list ?cl) - sum_list (?cl ! b) + sum_list ?row"
    using len b by (simp add: map_update sum_list_update_int)
  ultimately have "sum_list (map sum_list (?cl[b := ?row])) = layerTotal L + 1"
    using total by simp
  with rows' len show ?thesis
    by (simp add: layer_ok_def layerSum_def)
qed

lemma incrementCell_matrix_ok:
  assumes "matrix_ok k M" "a < k" "b < k" "c < k"
  shows "matrix_ok k (incrementCell M a b c)"
proof -
  from assms have "layer_ok k (M ! a)"
    by (simp add: matrix_ok_def)
  from layer_ok_increment [OF this assms(3,4)] assms(1)
  show ?thesis
    using set_update_subset_insert [of M a]
    by (auto simp: matrix_ok_def incrementCell_def)
qed

lemma countWindows_matrix_ok:
  assumes "matrix_ok k M" "\<forall>(a, b, c) \<in> set ws. a < k \<and> b < k \<and> c < k"
  shows "matrix_ok k (countWindows M ws)"
  using assms
proof (induction ws arbitrary: M)
  case Nil
  then show ?case by (simp add: countWindows_Nil)
next
  case (Cons w ws)
  obtain a b c where w: "w = (a, b, c)" by (cases w)
  with Cons.prems have "matrix_ok k (incrementCell M a b c)"
    by (simp add: incrementCell_matrix_ok)
  with Cons.IH [of "incrementCell M a b c"] Cons.prems show ?case
    by (simp add: w countWindows_Cons)
qed

lemma windowIndices_ran:
  assumes "windowIndices cm c1 c2 c3 = Some (a, b, c)"
  shows "a \<in> ran cm \<and> b \<in> ran cm \<and> c \<in> ran cm"
  using assms by (auto simp: windowIndices_def ran_def split: option.splits)

lemma validWindows_ran:
  assumes "(a, b, c) \<in> set (validWindows cm s)"
  shows "a \<in> ran cm \<and> b \<in> ran cm \<and> c \<in> ran cm"
proof -
  from assms obtain c1 c2 c3 where "windowIndices cm c1 c2 c3 = Some (a, b, c)"
    by (auto simp: validWindows_def List.map_filter_def)
  then show ?thesis by (rule windowIndices_ran)
qed

lemma validWindows_in_range:
  assumes "\<forall>i \<in> ran cm. i < k"
  shows "\<forall>(a, b, c) \<in> set (validWindows cm s). a < k \<and> b < k \<and> c < k"
  using assms validWindows_ran [of _ _ _ cm s] by blast

lemma createEmptyTrigramMatrix_ok: "matrix_ok k (createEmptyTrigramMatrix k)"
  by (auto simp: matrix_ok_def layer_ok_def layerSum_def createEmptyTrigramMatrix_def
      sum_list_replicate)

lemma train_matrix_ok:
  assumes "matrix_ok k (trigramMatrix m)" "\<forall>i \<in> ran (charCodeMap m). i < k"
  shows "matrix_ok k (trigramMatrix (train E m s))"
  using countWindows_matrix_ok [OF assms(1) validWindows_in_range [OF assms(2)]]
  by (simp add: train_matrix)

lemma foldl_train_charCodeMap: "charCodeMap (foldl (train E) m texts) = charCodeMap m"
  by (induction texts arbitrary: m) (simp_all add: train_fields)

lemma foldl_train_matrix_ok:
  assumes "matrix_ok k (trigramMatrix m)" "\<forall>i \<in> ran (charCodeMap m). i < k"
  shows "matrix_ok k (trigramMatrix (foldl (train E) m texts))"
  using assms
proof (induction texts arbitrary: m)
  case Nil
  then show ?case by simp
next
  case (Cons s texts)
  from Cons.prems have "matrix_ok k (trigramMatrix (train E m s))"
    by (rule train_matrix_ok)
  moreover from Cons.prems have "\<forall>i \<in> ran (charCodeMap (train E m s)). i < k"
    by (simp add: train_fields)
  ultimately show ?case using Cons.IH [of "train E m s"] by simp
qed

lemma example_ran: "\<forall>i \<in> ran (charCodeMap example_fresh). i < 2"
  by (auto simp: example_fresh_def example_charCodeMap_def ran_def split: if_splits)


text \<open>
  C7: from a fresh matrix, with an index map that stays below the alphabet size, every
  sequence of training calls leaves a table in which no cell is negative and each layer's
  total is the sum of the layer's cells (and which keeps its dimensions).
\<close>

theorem training_keeps_table_invariant:
  assumes "trigramMatrix m = createEmptyTrigramMatrix k"
    and "\<forall>i \<in> ran (charCodeMap m). i < k"
  shows "matrix_ok k (trigramMatrix (foldl (train E) m texts))"
  using assms foldl_train_matrix_ok [of k m E texts] by (simp add: createEmptyTrigramMatrix_ok)

theorem training_keeps_table_invariant_witness:
  "trigramMatrix example_fresh = createEmptyTrigramMatrix 2
   \<and> trigramMatrix (foldl (train example_externals) example_fresh [''aaabaab'', ''abba''])
       = [\<lparr>countLayer = [[1, 2], [1, 1]], layerTotal = 5\<rparr>,
          \<lparr>countLayer = [[1, 0], [1, 0]], layerTotal = 2\<rparr>]
   \<and> matrix_ok 2 (trigramMatrix (foldl (train example_externals) example_fresh [''aaabaab'', ''abba'']))"
proof -
  have fresh: "trigramMatrix example_fresh = createEmptyTrigramMatrix 2"
    by (simp add: example_fresh_def)
  have table: "trigramMatrix (foldl (train example_externals) example_fresh [''aaabaab'', ''abba''])
       = [\<lparr>countLayer = [[1, 2], [1, 1]], layerTotal = 5\<rparr>,
          \<lparr>countLayer = [[1, 0], [1, 0]], layerTotal = 2\<rparr>]"
    by code_simp
  from training_keeps_table_invariant [OF fresh example_ran, of example_externals "[''aaabaab'', ''abba'']"]
    fresh table
  show ?thesis by simp
qed


section \<open>Scoring\<close>

lemma nth_le_sum_list_int:
  fixes xs :: "int list"
  assumes "\<forall>x \<in> set xs. 0 \<le> x" "i < length xs"
  shows "xs ! i \<le> sum_list xs"
  using assms
proof (induction xs arbitrary: i)
  case Nil
  then show ?case by simp
next
  case (Cons y ys)
  then have "0 \<le> sum_list ys" by (simp add: sum_list_nonneg)
  with Cons show ?case by (cases i) (auto simp: add.commute add_increasing)
qed

lemma cell_le_layerTotal:
  assumes "layer_ok k L" "b < k" "c < k"
  shows "0 \<le> countLayer L ! b ! c \<and> countLayer L ! b ! c \<le> layerTotal L"
proof -
  let ?cl = "countLayer L"
  from assms(1) have len: "length ?cl = k"
    and rows: "\<And>r. r \<in> set ?cl \<Longrightarrow> length r = k \<and> (\<forall>x \<in> set r. 0 \<le> x)"
    and total: "layerTotal L = sum_list (map sum_list ?cl)"
    by (auto simp: layer_ok_def layerSum_def)
  from len assms(2) have "?cl ! b \<in> set ?cl" by simp
  with rows have rb_len: "length (?cl ! b) = k" and rb_pos: "\<forall>x \<in> set (?cl ! b). 0 \<le> x"
    by auto
  from rb_pos rb_len assms(3) have nonneg: "0 \<le> ?cl ! b ! c" by simp
  from rb_pos rb_len assms(3) have "?cl ! b ! c \<le> sum_list (?cl ! b)"
    by (simp add: nth_le_sum_list_int)
  moreover have "\<forall>x \<in> set (map sum_list ?cl). 0 \<le> x"
    using rows by (auto intro: sum_list_nonneg)
  with len assms(2) have "map sum_list ?cl ! b \<le> sum_list (map sum_list ?cl)"
    by (intro nth_le_sum_list_int) simp_all
  with len assms(2) have "sum_list (?cl ! b) \<le> sum_list (map sum_list ?cl)" by simp
  ultimately show ?thesis using nonneg total by simp
qed

lemma transitionProbability_bounds:
  assumes "matrix_ok k M" "a < k" "b < k" "c < k"
  shows "0 \<le> transitionProbability M a b c \<and> transitionProbability M a b c \<le> 1"
proof -
  from assms have "layer_ok k (M ! a)" by (simp add: matrix_ok_def)
  from cell_le_layerTotal [OF this assms(3,4)]
  show ?thesis by (simp add: transitionProbability_def)
qed

lemma sum_list_unit_bounds:
  fixes ps :: "real list"
  assumes "\<forall>p \<in> set ps. 0 \<le> p \<and> p \<le> 1"
  shows "0 \<le> sum_list ps \<and> sum_list ps \<le> real (length ps)"
  using assms by (induction ps) auto

lemma meanProbability_bounds:
  assumes "matrix_ok k M" "\<forall>(a, b, c) \<in> set ws. a < k \<and> b < k \<and> c < k"
  shows "0 \<le> meanProbability M ws \<and> meanProbability M ws \<le> 1"
proof (cases "ws = []")
  case True
  then show ?thesis by (simp add: meanProbability_def)
next
  case False
  let ?ps = "map (\<lambda>(a, b, c). transitionProbability M a b c) ws"
  have "\<forall>p \<in> set ?ps. 0 \<le> p \<and> p \<le> 1"
    using assms transitionProbability_bounds [of k M] by fastforce
  then have "0 \<le> sum_list ?ps \<and> sum_list ?ps \<le> real (length ?ps)"
    by (rule sum_list_unit_bounds)
  with False show ?thesis
    by (simp add: meanProbability_def divide_le_eq)
qed

lemma getScore_mean:
  "getScore m s =
     meanProbability (trigramMatrix m) (validWindows (charCodeMap m) (scannedText (ignoreCase m) s))"
  by (simp add: getScore_def runTextThroughTrigramMatrix_mean)

lemma example_trained_ran: "\<forall>i \<in> ran (charCodeMap example_trained). i < 2"
  using example_ran by (simp add: example_trained_def train_fields)


text \<open>
  C3: the score of a text is the arithmetic mean, over the valid windows of the text, of
  count over layer total, a window whose layer total is zero counting as zero; with no
  valid window (the empty text among others) the score is zero; and on a table that
  satisfies the invariant, with an index map below the alphabet size, the score lies
  between 0 and 1.
\<close>

theorem getScore_is_mean_in_unit_interval:
  "getScore m text =
     meanProbability (trigramMatrix m)
       (validWindows (charCodeMap m) (scannedText (ignoreCase m) text))
   \<and> transitionProbability (trigramMatrix m) i1 i2 i3 =
       (if layerTotal (trigramMatrix m ! i1) = 0 then 0
        else real_of_int (countLayer (trigramMatrix m ! i1) ! i2 ! i3)
               / real_of_int (layerTotal (trigramMatrix m ! i1)))
   \<and> (validWindows (charCodeMap m) (scannedText (ignoreCase m) text) = [] \<longrightarrow> getScore m text = 0)
   \<and> getScore m [] = 0
   \<and> (matrix_ok k (trigramMatrix m) \<and> (\<forall>i \<in> ran (charCodeMap m). i < k)
        \<longrightarrow> 0 \<le> getScore m text \<and> getScore m text \<le> 1)"
proof -
  have empty: "getScore m [] = 0"
    by (simp add: getScore_mean scannedText_def toLowerCase_def validWindows_short meanProbability_def)
  have bounds: "0 \<le> getScore m text \<and> getScore m text \<le> 1"
    if "matrix_ok k (trigramMatrix m)" "\<forall>i \<in> ran (charCodeMap m). i < k"
    using meanProbability_bounds [OF that(1) validWindows_in_range [OF that(2)]]
    by (simp add: getScore_mean)
  from empty bounds show ?thesis
    by (simp add: getScore_mean transitionProbability_def meanProbability_def)
qed

theorem getScore_is_mean_in_unit_interval_witness:
  "matrix_ok 2 (trigramMatrix example_trained)
   \<and> getScore example_trained ''aab'' = 1 / 2
   \<and> 0 \<le> getScore example_trained ''aab'' \<and> getScore example_trained ''aab'' \<le> 1
   \<and> validWindows (charCodeMap example_trained) (scannedText (ignoreCase example_trained) ''a?b-'') = []
   \<and> getScore example_trained ''a?b-'' = 0"
proof -
  have ok: "matrix_ok 2 (trigramMatrix example_trained)"
    by code_simp
  have none: "validWindows (charCodeMap example_trained) (scannedText (ignoreCase example_trained) ''a?b-'') = []"
    by code_simp
  have half: "getScore example_trained ''aab'' = 1 / 2"
    by code_simp
  from getScore_is_mean_in_unit_interval [of example_trained "''aab''" 0 0 0 2] ok example_trained_ran
  have "0 \<le> getScore example_trained ''aab'' \<and> getScore example_trained ''aab'' \<le> 1"
    by blast
  moreover from getScore_is_mean_in_unit_interval [of example_trained "''a?b-''" 0 0 0 2] none
  have "getScore example_trained ''a?b-'' = 0"
    by blast
  ultimately show ?thesis using ok none half by simp
qed


section \<open>Calibration\<close>





text \<open>With the triple in the order \<open>loose \<le> avg \<le> strict\<close>, every text the loose cutoff
  marks as gibberish is marked by the central and by the strict cutoff too: \<open>Strict\<close>
  labels more text as gibberish, as \<^verbatim>\<open>index.ts\<close> documents it.\<close>

lemma ordered_cutoffs_nest:
  assumes "cutoffScores m = \<lparr>strict = Number s, avg = Number a, loose = Number l\<rparr>"
    and "l \<le> a" and "a \<le> s"
    and "isGibberish m text (Some Loose)"
  shows "isGibberish m text (Some Avg) \<and> isGibberish m text (Some Strict)"
  using assms by (simp add: isGibberish_def)

end
